theory Spec2Isabelle
  imports Complex_Main "HOL-Library.Log_Nat"
begin

section \<open>Values, dictionaries and exceptions\<close>

text \<open>
  The calculator of \<^verbatim>\<open>streamlit_app.py\<close> works on Python dictionaries. An activity
  dictionary maps a field name to a number or, for \<^verbatim>\<open>Subcontractors_tCO2e\<close>, to a list of
  numbers; an adjustments dictionary maps a slider name to a number.

  Python's \<^verbatim>\<open>int\<close> and \<^verbatim>\<open>float\<close> are both embedded as \<^typ>\<open>real\<close>. The calculator
  is embedded twice: \<open>calculate_category_emissions\<close> with exact arithmetic, and
  \<open>calculate_category_emissions_fl\<close> with a rounding function applied after every
  arithmetic operation, which is binary64 rounding for the arithmetic Python performs.

  The source raises nothing by itself; the exceptions of the model are the ones Python
  raises for a missing key (\<^verbatim>\<open>A['Cars_km']\<close>) and for an operand of the wrong type
  (a list times a float, \<^verbatim>\<open>sum\<close> of a number).
\<close>

datatype pyval = Num real | Lst "real list" | Str string

datatype error = KeyError string | TypeError

type_synonym activity = "string \<rightharpoonup> pyval"

type_synonym adjustments = "string \<rightharpoonup> real"

text \<open>\<^verbatim>\<open>d[k]\<close>: raises KeyError on a missing key.\<close>

definition getitem :: "(string \<rightharpoonup> 'v) \<Rightarrow> string \<Rightarrow> error + 'v" where
  "getitem d k = (case d k of None \<Rightarrow> Inl (KeyError k) | Some v \<Rightarrow> Inr v)"

text \<open>\<^verbatim>\<open>d.get(k, default)\<close>: never raises.\<close>

definition dict_get :: "(string \<rightharpoonup> 'v) \<Rightarrow> string \<Rightarrow> 'v \<Rightarrow> 'v" where
  "dict_get d k dflt = (case d k of None \<Rightarrow> dflt | Some v \<Rightarrow> v)"

text \<open>\<^verbatim>\<open>v * f\<close> for a float \<^verbatim>\<open>f\<close>: a list or a string times a float is a TypeError.\<close>

fun py_mul :: "pyval \<Rightarrow> real \<Rightarrow> error + real" where
  "py_mul (Num x) f = Inr (x * f)"
| "py_mul (Lst xs) f = Inl TypeError"
| "py_mul (Str s) f = Inl TypeError"

text \<open>
  \<^verbatim>\<open>sum(v)\<close>: starts from 0 and adds the items from left to right. A number is not
  iterable; a string iterates over its characters, and \<^verbatim>\<open>0 + 'c'\<close> is a TypeError, so
  only the empty string has a sum.
\<close>

fun py_sum :: "pyval \<Rightarrow> error + real" where
  "py_sum (Lst xs) = Inr (foldl (+) 0 xs)"
| "py_sum (Num x) = Inl TypeError"
| "py_sum (Str s) = (if s = [] then Inr 0 else Inl TypeError)"

section \<open>Emission factors and default data\<close>

definition FACTORS :: "string \<rightharpoonup> real" where
  "FACTORS =
     [''Cars'' \<mapsto> 0.18,
      ''Trucks'' \<mapsto> 0.90,
      ''Buses'' \<mapsto> 1.10,
      ''Forklifts'' \<mapsto> 4.0,
      ''Planes'' \<mapsto> 9000.0,
      ''Lighting'' \<mapsto> 0.42,
      ''Heating'' \<mapsto> 0.20,
      ''Cooling'' \<mapsto> 0.42,
      ''Computing'' \<mapsto> 0.42]"

definition DEFAULT_ACTIVITY_DATA :: activity where
  "DEFAULT_ACTIVITY_DATA =
     [''Cars_km'' \<mapsto> Num 250000,
      ''Trucks_km'' \<mapsto> Num 150000,
      ''Buses_km'' \<mapsto> Num 80000,
      ''Forklifts_hr'' \<mapsto> Num 2000,
      ''Planes_hr'' \<mapsto> Num 400,
      ''Lighting_kWh'' \<mapsto> Num 120000,
      ''Heating_kWhth'' \<mapsto> Num 50000,
      ''Cooling_kWh'' \<mapsto> Num 300000,
      ''Computing_kWh'' \<mapsto> Num 90000,
      ''Subcontractors_tCO2e'' \<mapsto> Lst [120, 45, 20]]"

text \<open>The activity data after \<^verbatim>\<open>reset_data\<close>: every field 0, three subcontractors at 0.\<close>

definition RESET_ACTIVITY_DATA :: activity where
  "RESET_ACTIVITY_DATA =
     [''Cars_km'' \<mapsto> Num 0,
      ''Trucks_km'' \<mapsto> Num 0,
      ''Buses_km'' \<mapsto> Num 0,
      ''Forklifts_hr'' \<mapsto> Num 0,
      ''Planes_hr'' \<mapsto> Num 0,
      ''Lighting_kWh'' \<mapsto> Num 0,
      ''Heating_kWhth'' \<mapsto> Num 0,
      ''Cooling_kWh'' \<mapsto> Num 0,
      ''Computing_kWh'' \<mapsto> Num 0,
      ''Subcontractors_tCO2e'' \<mapsto> Lst [0, 0, 0]]"

section \<open>The per-category calculator\<close>

text \<open>
  \<^verbatim>\<open>A[k] * F[c]\<close>, evaluated as Python does: the activity lookup, then the factor
  lookup, then the product.
\<close>

definition activity_times_factor ::
  "activity \<Rightarrow> string \<Rightarrow> (string \<rightharpoonup> real) \<Rightarrow> string \<Rightarrow> error + real" where
  "activity_times_factor A k F c =
     (case getitem A k of
        Inl e \<Rightarrow> Inl e
      | Inr a \<Rightarrow>
          (case getitem F c of
             Inl e \<Rightarrow> Inl e
           | Inr f \<Rightarrow> py_mul a f))"

text \<open>\<^verbatim>\<open>adjustments if adjustments is not None else {}\<close>\<close>

definition or_empty :: "adjustments option \<Rightarrow> adjustments" where
  "or_empty adjustments = (case adjustments of Some d \<Rightarrow> d | None \<Rightarrow> Map.empty)"

definition calculate_category_emissions ::
  "string \<Rightarrow> activity \<Rightarrow> adjustments option \<Rightarrow> error + real" where
  "calculate_category_emissions category activity_data adjustments =
     (let adjustments = or_empty adjustments;
          A = activity_data;
          F = FACTORS
      in
        if category = ''Cars'' then
          (let EV = dict_get adjustments ''EV_Share'' 0;
               KMRed = dict_get adjustments ''KM_Reduction'' 0
           in case activity_times_factor A ''Cars_km'' F ''Cars'' of
                Inl e \<Rightarrow> Inl e
              | Inr p \<Rightarrow>
                  (let emissions_kg = p * (1 - 0.7 * EV / 100) * (1 - KMRed / 100)
                   in Inr (emissions_kg / 1000)))
        else if category = ''Trucks'' then
          (case activity_times_factor A ''Trucks_km'' F ''Trucks'' of
             Inl e \<Rightarrow> Inl e
           | Inr p \<Rightarrow> Inr (p / 1000))
        else if category = ''Buses'' then
          (case activity_times_factor A ''Buses_km'' F ''Buses'' of
             Inl e \<Rightarrow> Inl e
           | Inr p \<Rightarrow> Inr (p / 1000))
        else if category = ''Forklifts'' then
          (case activity_times_factor A ''Forklifts_hr'' F ''Forklifts'' of
             Inl e \<Rightarrow> Inl e
           | Inr p \<Rightarrow> Inr (p / 1000))
        else if category = ''Cargo Planes'' then
          (let LoadFactor = dict_get adjustments ''Load_Factor'' 100
           in case activity_times_factor A ''Planes_hr'' F ''Planes'' of
                Inl e \<Rightarrow> Inl e
              | Inr p \<Rightarrow>
                  (let emissions_kg = p * (LoadFactor / 100)
                   in Inr (emissions_kg / 1000)))
        else if category = ''Office Lighting'' then
          (case activity_times_factor A ''Lighting_kWh'' F ''Lighting'' of
             Inl e \<Rightarrow> Inl e
           | Inr p \<Rightarrow> Inr (p / 1000))
        else if category = ''Heating'' then
          (case activity_times_factor A ''Heating_kWhth'' F ''Heating'' of
             Inl e \<Rightarrow> Inl e
           | Inr p \<Rightarrow> Inr (p / 1000))
        else if category = ''Cooling (A/C)'' then
          (case activity_times_factor A ''Cooling_kWh'' F ''Cooling'' of
             Inl e \<Rightarrow> Inl e
           | Inr p \<Rightarrow> Inr (p / 1000))
        else if category = ''Computing (IT)'' then
          (case activity_times_factor A ''Computing_kWh'' F ''Computing'' of
             Inl e \<Rightarrow> Inl e
           | Inr p \<Rightarrow> Inr (p / 1000))
        else if category = ''Subcontractors'' then
          (case getitem A ''Subcontractors_tCO2e'' of
             Inl e \<Rightarrow> Inl e
           | Inr v \<Rightarrow> py_sum v)
        else Inr 0.0)"

section \<open>The report\<close>

record row =
  Category :: string
  Activity_Data :: pyval
  Emissions :: real

definition categories :: "string list" where
  "categories =
     [''Cars'', ''Trucks'', ''Buses'', ''Forklifts'', ''Cargo Planes'',
      ''Office Lighting'', ''Heating'', ''Cooling (A/C)'', ''Computing (IT)'',
      ''Subcontractors'']"

text \<open>The \<^verbatim>\<open>if\<close>/\<^verbatim>\<open>elif\<close> chain that picks the displayed input of a row.\<close>

definition input_value_of :: "string \<Rightarrow> activity \<Rightarrow> error + pyval" where
  "input_value_of cat activity_data =
     (if cat = ''Cars'' then getitem activity_data ''Cars_km''
      else if cat = ''Trucks'' then getitem activity_data ''Trucks_km''
      else if cat = ''Buses'' then getitem activity_data ''Buses_km''
      else if cat = ''Forklifts'' then getitem activity_data ''Forklifts_hr''
      else if cat = ''Cargo Planes'' then getitem activity_data ''Planes_hr''
      else if cat = ''Office Lighting'' then getitem activity_data ''Lighting_kWh''
      else if cat = ''Heating'' then getitem activity_data ''Heating_kWhth''
      else if cat = ''Cooling (A/C)'' then getitem activity_data ''Cooling_kWh''
      else if cat = ''Computing (IT)'' then getitem activity_data ''Computing_kWh''
      else if cat = ''Subcontractors'' then
        (case getitem activity_data ''Subcontractors_tCO2e'' of
           Inl e \<Rightarrow> Inl e
         | Inr v \<Rightarrow> (case py_sum v of Inl e \<Rightarrow> Inl e | Inr s \<Rightarrow> Inr (Num s)))
      else Inr (Str ''''))"

text \<open>
  The \<^verbatim>\<open>for cat in categories\<close> loop: \<^verbatim>\<open>results\<close> is the list built so far, and an
  exception in the body ends the loop.
\<close>

fun emission_rows ::
  "string list \<Rightarrow> activity \<Rightarrow> adjustments option \<Rightarrow> row list \<Rightarrow> error + row list" where
  "emission_rows [] activity_data adjustments results = Inr results"
| "emission_rows (cat # cats) activity_data adjustments results =
     (case calculate_category_emissions cat activity_data adjustments of
        Inl e \<Rightarrow> Inl e
      | Inr emissions \<Rightarrow>
          (case input_value_of cat activity_data of
             Inl e \<Rightarrow> Inl e
           | Inr input_value \<Rightarrow>
               emission_rows cats activity_data adjustments
                 (results @
                  [\<lparr>Category = cat, Activity_Data = input_value, Emissions = emissions\<rparr>])))"

text \<open>The row the loop body appends for a category, when neither call raises.\<close>

definition row_of :: "string \<Rightarrow> activity \<Rightarrow> adjustments option \<Rightarrow> row" where
  "row_of cat A adj =
     \<lparr>Category = cat,
      Activity_Data = projr (input_value_of cat A),
      Emissions = projr (calculate_category_emissions cat A adj)\<rparr>"

definition get_full_emission_dataframe ::
  "activity \<Rightarrow> adjustments option \<Rightarrow> error + row list" where
  "get_full_emission_dataframe activity_data adjustments =
     emission_rows categories activity_data adjustments []"

text \<open>\<^verbatim>\<open>df['Emissions (tCO2e)'].sum()\<close>: the sum of the emissions column.\<close>

definition emissions_column_sum :: "row list \<Rightarrow> real" where
  "emissions_column_sum df = sum_list (map Emissions df)"

text \<open>
  The total of a scenario, as computed for \<^verbatim>\<open>total_baseline_co2\<close> and
  \<^verbatim>\<open>total_optimized_co2\<close>: build the frame, then sum its emissions column.
\<close>

definition total_co2 :: "activity \<Rightarrow> adjustments option \<Rightarrow> error + real" where
  "total_co2 activity_data adjustments =
     (case get_full_emission_dataframe activity_data adjustments of
        Inl e \<Rightarrow> Inl e
      | Inr df \<Rightarrow> Inr (emissions_column_sum df))"

definition baseline_adjustments :: adjustments where
  "baseline_adjustments =
     [''EV_Share'' \<mapsto> 0, ''KM_Reduction'' \<mapsto> 0, ''Load_Factor'' \<mapsto> 100]"

text \<open>The optimized scenario takes the three slider values.\<close>

definition optimized_adjustments :: "real \<Rightarrow> real \<Rightarrow> real \<Rightarrow> adjustments" where
  "optimized_adjustments adj_ev_share adj_km_red adj_load_factor =
     [''EV_Share'' \<mapsto> adj_ev_share,
      ''KM_Reduction'' \<mapsto> adj_km_red,
      ''Load_Factor'' \<mapsto> adj_load_factor]"

section \<open>Binary64 arithmetic\<close>

text \<open>
  A Python \<^verbatim>\<open>float\<close> is an IEEE 754 binary64 number, and every operation returns the
  exact result rounded to the nearest such number, ties to the even significand.
  \<open>binary64 x\<close> is that rounding: the significand has 53 bits, and the exponent of the
  last place is at least \<open>-1074\<close> (subnormal numbers). Infinities and NaN are not
  represented, so results of magnitude \<open>2 ^ 1024\<close> and above are outside the model.
\<close>

definition round_half_even :: "real \<Rightarrow> int" where
  "round_half_even x =
     (let f = \<lfloor>x\<rfloor>; d = x - of_int f
      in if d < 1 / 2 then f else if 1 / 2 < d then f + 1 else if even f then f else f + 1)"

text \<open>\<open>floor_log2 x\<close> is the integer \<open>k\<close> with \<open>2 ^ k \<le> x < 2 ^ (k + 1)\<close>, for positive \<open>x\<close>.\<close>

definition floor_log2 :: "real \<Rightarrow> int" where
  "floor_log2 x =
     (if 1 \<le> x then bitlen \<lfloor>x\<rfloor> - 1
      else (let b = bitlen \<lfloor>1 / x\<rfloor>
            in if 1 / x = 2 ^ nat (b - 1) then 1 - b else - b))"

definition binary64 :: "real \<Rightarrow> real" where
  "binary64 x =
     (if x = 0 then 0
      else (let e = max (floor_log2 \<bar>x\<bar> - 52) (- 1074);
                m = round_half_even (\<bar>x\<bar> / 2 powi e)
            in sgn x * of_int m * 2 powi e))"

text \<open>
  The operations of the calculator, with the rounding \<open>rnd\<close> as a parameter. In a mixed
  operation Python converts an \<^verbatim>\<open>int\<close> operand to \<^verbatim>\<open>float\<close> first, so the operands of
  a product, difference or sum are rounded before the operation. A true division of
  two \<^verbatim>\<open>int\<close>s rounds the exact quotient once, and a \<^verbatim>\<open>float\<close> dividend is a binary64
  number already; the divisors of the calculator are the literals 100 and 1000.
\<close>

definition fl_mul :: "(real \<Rightarrow> real) \<Rightarrow> real \<Rightarrow> real \<Rightarrow> real" where
  "fl_mul rnd a b = rnd (rnd a * rnd b)"

definition fl_sub :: "(real \<Rightarrow> real) \<Rightarrow> real \<Rightarrow> real \<Rightarrow> real" where
  "fl_sub rnd a b = rnd (rnd a - rnd b)"

definition fl_add :: "(real \<Rightarrow> real) \<Rightarrow> real \<Rightarrow> real \<Rightarrow> real" where
  "fl_add rnd a b = rnd (rnd a + rnd b)"

definition fl_div :: "(real \<Rightarrow> real) \<Rightarrow> real \<Rightarrow> real \<Rightarrow> real" where
  "fl_div rnd a b = rnd (a / b)"

fun py_mul_fl :: "(real \<Rightarrow> real) \<Rightarrow> pyval \<Rightarrow> real \<Rightarrow> error + real" where
  "py_mul_fl rnd (Num x) f = Inr (fl_mul rnd x f)"
| "py_mul_fl rnd (Lst xs) f = Inl TypeError"
| "py_mul_fl rnd (Str s) f = Inl TypeError"

text \<open>
  \<^verbatim>\<open>sum\<close> adds the entries one by one. Python adds \<^verbatim>\<open>int\<close> entries exactly, which is
  the same as long as the partial sums stay below \<open>2 ^ 53\<close>.
\<close>

fun py_sum_fl :: "(real \<Rightarrow> real) \<Rightarrow> pyval \<Rightarrow> error + real" where
  "py_sum_fl rnd (Lst xs) = Inr (foldl (fl_add rnd) 0 xs)"
| "py_sum_fl rnd (Num x) = Inl TypeError"
| "py_sum_fl rnd (Str s) = (if s = [] then Inr 0 else Inl TypeError)"

definition activity_times_factor_fl ::
  "(real \<Rightarrow> real) \<Rightarrow> activity \<Rightarrow> string \<Rightarrow> (string \<rightharpoonup> real) \<Rightarrow> string \<Rightarrow> error + real" where
  "activity_times_factor_fl rnd A k F c =
     (case getitem A k of
        Inl e \<Rightarrow> Inl e
      | Inr a \<Rightarrow>
          (case getitem F c of
             Inl e \<Rightarrow> Inl e
           | Inr f \<Rightarrow> py_mul_fl rnd a f))"

text \<open>The calculator of lines 43 to 106 once more, every operation followed by \<open>rnd\<close>.\<close>

definition calculate_category_emissions_fl ::
  "(real \<Rightarrow> real) \<Rightarrow> string \<Rightarrow> activity \<Rightarrow> adjustments option \<Rightarrow> error + real" where
  "calculate_category_emissions_fl rnd category activity_data adjustments =
     (let adjustments = or_empty adjustments;
          A = activity_data;
          F = FACTORS
      in
        if category = ''Cars'' then
          (let EV = dict_get adjustments ''EV_Share'' 0;
               KMRed = dict_get adjustments ''KM_Reduction'' 0
           in case activity_times_factor_fl rnd A ''Cars_km'' F ''Cars'' of
                Inl e \<Rightarrow> Inl e
              | Inr p \<Rightarrow>
                  (let emissions_kg =
                         fl_mul rnd
                           (fl_mul rnd p (fl_sub rnd 1 (fl_div rnd (fl_mul rnd 0.7 EV) 100)))
                           (fl_sub rnd 1 (fl_div rnd KMRed 100))
                   in Inr (fl_div rnd emissions_kg 1000)))
        else if category = ''Trucks'' then
          (case activity_times_factor_fl rnd A ''Trucks_km'' F ''Trucks'' of
             Inl e \<Rightarrow> Inl e
           | Inr p \<Rightarrow> Inr (fl_div rnd p 1000))
        else if category = ''Buses'' then
          (case activity_times_factor_fl rnd A ''Buses_km'' F ''Buses'' of
             Inl e \<Rightarrow> Inl e
           | Inr p \<Rightarrow> Inr (fl_div rnd p 1000))
        else if category = ''Forklifts'' then
          (case activity_times_factor_fl rnd A ''Forklifts_hr'' F ''Forklifts'' of
             Inl e \<Rightarrow> Inl e
           | Inr p \<Rightarrow> Inr (fl_div rnd p 1000))
        else if category = ''Cargo Planes'' then
          (let LoadFactor = dict_get adjustments ''Load_Factor'' 100
           in case activity_times_factor_fl rnd A ''Planes_hr'' F ''Planes'' of
                Inl e \<Rightarrow> Inl e
              | Inr p \<Rightarrow>
                  (let emissions_kg = fl_mul rnd p (fl_div rnd LoadFactor 100)
                   in Inr (fl_div rnd emissions_kg 1000)))
        else if category = ''Office Lighting'' then
          (case activity_times_factor_fl rnd A ''Lighting_kWh'' F ''Lighting'' of
             Inl e \<Rightarrow> Inl e
           | Inr p \<Rightarrow> Inr (fl_div rnd p 1000))
        else if category = ''Heating'' then
          (case activity_times_factor_fl rnd A ''Heating_kWhth'' F ''Heating'' of
             Inl e \<Rightarrow> Inl e
           | Inr p \<Rightarrow> Inr (fl_div rnd p 1000))
        else if category = ''Cooling (A/C)'' then
          (case activity_times_factor_fl rnd A ''Cooling_kWh'' F ''Cooling'' of
             Inl e \<Rightarrow> Inl e
           | Inr p \<Rightarrow> Inr (fl_div rnd p 1000))
        else if category = ''Computing (IT)'' then
          (case activity_times_factor_fl rnd A ''Computing_kWh'' F ''Computing'' of
             Inl e \<Rightarrow> Inl e
           | Inr p \<Rightarrow> Inr (fl_div rnd p 1000))
        else if category = ''Subcontractors'' then
          (case getitem A ''Subcontractors_tCO2e'' of
             Inl e \<Rightarrow> Inl e
           | Inr v \<Rightarrow> py_sum_fl rnd v)
        else Inr 0.0)"

section \<open>Well-formed activity records\<close>

definition numeric_fields :: "string list" where
  "numeric_fields =
     [''Cars_km'', ''Trucks_km'', ''Buses_km'', ''Forklifts_hr'', ''Planes_hr'',
      ''Lighting_kWh'', ''Heating_kWhth'', ''Cooling_kWh'', ''Computing_kWh'']"

fun is_num :: "pyval option \<Rightarrow> bool" where
  "is_num (Some (Num x)) = True"
| "is_num v = False"

fun is_lst :: "pyval option \<Rightarrow> bool" where
  "is_lst (Some (Lst xs)) = True"
| "is_lst v = False"

text \<open>
  An activity record has a number in each of the nine numeric fields and a list of
  numbers in \<^verbatim>\<open>Subcontractors_tCO2e\<close>, as \<^verbatim>\<open>current_activity_data\<close> has.
\<close>

definition is_activity_record :: "activity \<Rightarrow> bool" where
  "is_activity_record A \<longleftrightarrow>
     list_all (\<lambda>k. is_num (A k)) numeric_fields \<and> is_lst (A ''Subcontractors_tCO2e'')"

text \<open>
  The three sliders range over 0..100; a percentage is in range when every adjustment
  that is supplied lies in that interval (an omitted one takes its neutral default).
\<close>

definition percentage_keys :: "string list" where
  "percentage_keys = [''EV_Share'', ''KM_Reduction'', ''Load_Factor'']"

definition percentages_in_range :: "adjustments option \<Rightarrow> bool" where
  "percentages_in_range adjustments \<longleftrightarrow>
     list_all
       (\<lambda>k. case or_empty adjustments k of None \<Rightarrow> True | Some p \<Rightarrow> 0 \<le> p \<and> p \<le> 100)
       percentage_keys"

section \<open>Basic facts\<close>

lemma foldl_plus_sum_list: "foldl (+) a xs = a + sum_list (xs :: real list)"
  by (induction xs arbitrary: a) simp_all

lemma py_sum_Lst: "py_sum (Lst xs) = Inr (sum_list xs)"
  by (simp add: foldl_plus_sum_list)

text \<open>The factor table, one lookup at a time.\<close>

lemma FACTORS_lookup:
  "FACTORS ''Cars'' = Some 0.18" "FACTORS ''Trucks'' = Some 0.90" "FACTORS ''Buses'' = Some 1.10"
  "FACTORS ''Forklifts'' = Some 4.0" "FACTORS ''Planes'' = Some 9000.0"
  "FACTORS ''Lighting'' = Some 0.42" "FACTORS ''Heating'' = Some 0.20"
  "FACTORS ''Cooling'' = Some 0.42" "FACTORS ''Computing'' = Some 0.42"
  by (simp_all add: FACTORS_def)

lemmas calc_defs =
  calculate_category_emissions_def activity_times_factor_def getitem_def dict_get_def
  FACTORS_lookup Let_def

lemma calc_Cars:
  "A ''Cars_km'' = Some (Num x) \<Longrightarrow>
   calculate_category_emissions ''Cars'' A adj =
     Inr (x * 0.18 * (1 - 0.7 * dict_get (or_empty adj) ''EV_Share'' 0 / 100)
            * (1 - dict_get (or_empty adj) ''KM_Reduction'' 0 / 100) / 1000)"
  by (simp add: calculate_category_emissions_def activity_times_factor_def getitem_def FACTORS_lookup Let_def)

lemma calc_Planes:
  "A ''Planes_hr'' = Some (Num x) \<Longrightarrow>
   calculate_category_emissions ''Cargo Planes'' A adj =
     Inr (x * 9000.0 * (dict_get (or_empty adj) ''Load_Factor'' 100 / 100) / 1000)"
  by (simp add: calculate_category_emissions_def activity_times_factor_def getitem_def FACTORS_lookup Let_def)

lemma calc_Trucks:
  "A ''Trucks_km'' = Some (Num x) \<Longrightarrow>
   calculate_category_emissions ''Trucks'' A adj = Inr (x * 0.90 / 1000)"
  by (simp add: calc_defs)

lemma calc_Buses:
  "A ''Buses_km'' = Some (Num x) \<Longrightarrow>
   calculate_category_emissions ''Buses'' A adj = Inr (x * 1.10 / 1000)"
  by (simp add: calc_defs)

lemma calc_Forklifts:
  "A ''Forklifts_hr'' = Some (Num x) \<Longrightarrow>
   calculate_category_emissions ''Forklifts'' A adj = Inr (x * 4.0 / 1000)"
  by (simp add: calc_defs)

lemma calc_Lighting:
  "A ''Lighting_kWh'' = Some (Num x) \<Longrightarrow>
   calculate_category_emissions ''Office Lighting'' A adj = Inr (x * 0.42 / 1000)"
  by (simp add: calc_defs)

lemma calc_Heating:
  "A ''Heating_kWhth'' = Some (Num x) \<Longrightarrow>
   calculate_category_emissions ''Heating'' A adj = Inr (x * 0.20 / 1000)"
  by (simp add: calc_defs)

lemma calc_Cooling:
  "A ''Cooling_kWh'' = Some (Num x) \<Longrightarrow>
   calculate_category_emissions ''Cooling (A/C)'' A adj = Inr (x * 0.42 / 1000)"
  by (simp add: calc_defs)

lemma calc_Computing:
  "A ''Computing_kWh'' = Some (Num x) \<Longrightarrow>
   calculate_category_emissions ''Computing (IT)'' A adj = Inr (x * 0.42 / 1000)"
  by (simp add: calc_defs)

lemma calc_Subcontractors:
  "A ''Subcontractors_tCO2e'' = Some (Lst xs) \<Longrightarrow>
   calculate_category_emissions ''Subcontractors'' A adj = Inr (sum_list xs)"
  by (simp add: calc_defs foldl_plus_sum_list)

lemma calc_unknown:
  "category \<notin> set categories \<Longrightarrow> calculate_category_emissions category A adj = Inr 0"
  by (simp add: calculate_category_emissions_def categories_def)

lemma calc_ignores_adjustments:
  "category \<noteq> ''Cars'' \<Longrightarrow> category \<noteq> ''Cargo Planes'' \<Longrightarrow>
   calculate_category_emissions category A adj1 = calculate_category_emissions category A adj2"
  by (simp add: calculate_category_emissions_def)

lemma is_activity_recordD:
  assumes "is_activity_record A"
  obtains c t b f p l h co cm xs where
    "A ''Cars_km'' = Some (Num c)" "A ''Trucks_km'' = Some (Num t)"
    "A ''Buses_km'' = Some (Num b)" "A ''Forklifts_hr'' = Some (Num f)"
    "A ''Planes_hr'' = Some (Num p)" "A ''Lighting_kWh'' = Some (Num l)"
    "A ''Heating_kWhth'' = Some (Num h)" "A ''Cooling_kWh'' = Some (Num co)"
    "A ''Computing_kWh'' = Some (Num cm)" "A ''Subcontractors_tCO2e'' = Some (Lst xs)"
  using assms
  by (auto simp: is_activity_record_def numeric_fields_def elim!: is_num.elims is_lst.elims)

lemmas scenario_defs = DEFAULT_ACTIVITY_DATA_def baseline_adjustments_def or_empty_def

lemma default_rows:
  "get_full_emission_dataframe DEFAULT_ACTIVITY_DATA (Some baseline_adjustments) =
     Inr [\<lparr>Category = ''Cars'', Activity_Data = Num 250000, Emissions = 45.0\<rparr>,
          \<lparr>Category = ''Trucks'', Activity_Data = Num 150000, Emissions = 135.0\<rparr>,
          \<lparr>Category = ''Buses'', Activity_Data = Num 80000, Emissions = 88.0\<rparr>,
          \<lparr>Category = ''Forklifts'', Activity_Data = Num 2000, Emissions = 8.0\<rparr>,
          \<lparr>Category = ''Cargo Planes'', Activity_Data = Num 400, Emissions = 3600.0\<rparr>,
          \<lparr>Category = ''Office Lighting'', Activity_Data = Num 120000, Emissions = 50.4\<rparr>,
          \<lparr>Category = ''Heating'', Activity_Data = Num 50000, Emissions = 10.0\<rparr>,
          \<lparr>Category = ''Cooling (A/C)'', Activity_Data = Num 300000, Emissions = 126.0\<rparr>,
          \<lparr>Category = ''Computing (IT)'', Activity_Data = Num 90000, Emissions = 37.8\<rparr>,
          \<lparr>Category = ''Subcontractors'', Activity_Data = Num 185, Emissions = 185.0\<rparr>]"
  by (simp add: get_full_emission_dataframe_def categories_def input_value_of_def
      calc_defs scenario_defs)

text \<open>On an activity record no call raises, and the loop builds one row per category.\<close>

lemma calc_returns_on_records:
  assumes "is_activity_record A"
  shows "\<exists>e. calculate_category_emissions category A adj = Inr e"
proof -
  from assms obtain c t b f p l h co cm xs where
    "A ''Cars_km'' = Some (Num c)" "A ''Trucks_km'' = Some (Num t)"
    "A ''Buses_km'' = Some (Num b)" "A ''Forklifts_hr'' = Some (Num f)"
    "A ''Planes_hr'' = Some (Num p)" "A ''Lighting_kWh'' = Some (Num l)"
    "A ''Heating_kWhth'' = Some (Num h)" "A ''Cooling_kWh'' = Some (Num co)"
    "A ''Computing_kWh'' = Some (Num cm)" "A ''Subcontractors_tCO2e'' = Some (Lst xs)"
    by (rule is_activity_recordD)
  then have "\<not> isl (calculate_category_emissions category A adj)"
    by (simp add: calc_defs)
  then show ?thesis
    by (cases "calculate_category_emissions category A adj") simp_all
qed

lemma input_value_returns_on_records:
  assumes "is_activity_record A"
  shows "\<exists>v. input_value_of category A = Inr v"
proof -
  from assms obtain c t b f p l h co cm xs where
    "A ''Cars_km'' = Some (Num c)" "A ''Trucks_km'' = Some (Num t)"
    "A ''Buses_km'' = Some (Num b)" "A ''Forklifts_hr'' = Some (Num f)"
    "A ''Planes_hr'' = Some (Num p)" "A ''Lighting_kWh'' = Some (Num l)"
    "A ''Heating_kWhth'' = Some (Num h)" "A ''Cooling_kWh'' = Some (Num co)"
    "A ''Computing_kWh'' = Some (Num cm)" "A ''Subcontractors_tCO2e'' = Some (Lst xs)"
    by (rule is_activity_recordD)
  then have "\<not> isl (input_value_of category A)"
    by (simp add: input_value_of_def getitem_def)
  then show ?thesis
    by (cases "input_value_of category A") simp_all
qed

lemma emission_rows_on_records:
  assumes "is_activity_record A"
  shows "emission_rows cats A adj results = Inr (results @ map (\<lambda>c. row_of c A adj) cats)"
proof (induction cats arbitrary: results)
  case Nil
  show ?case by simp
next
  case (Cons cat cats)
  obtain e where e: "calculate_category_emissions cat A adj = Inr e"
    using calc_returns_on_records [OF assms] by blast
  obtain v where v: "input_value_of cat A = Inr v"
    using input_value_returns_on_records [OF assms] by blast
  show ?case
    by (simp add: e v Cons.IH row_of_def)
qed

lemma emission_rows_cong:
  assumes "\<And>c. calculate_category_emissions c A adj1 = calculate_category_emissions c A adj2"
  shows "emission_rows cats A adj1 results = emission_rows cats A adj2 results"
proof (induction cats arbitrary: results)
  case Nil
  show ?case by simp
next
  case (Cons cat cats)
  show ?case
    by (simp add: assms Cons.IH split: sum.splits)
qed

lemma total_co2_cong:
  assumes "\<And>c. calculate_category_emissions c A adj1 = calculate_category_emissions c A adj2"
  shows "total_co2 A adj1 = total_co2 A adj2"
  by (simp add: total_co2_def get_full_emission_dataframe_def emission_rows_cong [OF assms])

lemma sum_list_map_nth:
  "sum_list (map f xs) = (\<Sum>i<length xs. (f (xs ! i) :: real))"
proof -
  have "sum_list (map f xs) = (\<Sum>i = 0..<length (map f xs). map f xs ! i)"
    by (rule sum_list_sum_nth)
  also have "\<dots> = (\<Sum>i<length xs. f (xs ! i))"
    by (rule sum.cong) (auto simp: atLeast0LessThan)
  finally show ?thesis .
qed

lemma default_is_activity_record: "is_activity_record DEFAULT_ACTIVITY_DATA"
  by (simp add: is_activity_record_def numeric_fields_def DEFAULT_ACTIVITY_DATA_def)

lemma calc_None_baseline:
  "calculate_category_emissions category A None =
   calculate_category_emissions category A (Some baseline_adjustments)"
  by (simp add: calculate_category_emissions_def or_empty_def dict_get_def
      baseline_adjustments_def Let_def)

lemma calc_fill_defaults:
  "calculate_category_emissions category A (Some adj) =
   calculate_category_emissions category A (Some (baseline_adjustments ++ adj))"
  by (simp add: calculate_category_emissions_def or_empty_def dict_get_def
      baseline_adjustments_def Let_def map_add_def split: option.splits)

lemma dict_get_baseline:
  "dict_get baseline_adjustments ''EV_Share'' 0 = 0"
  "dict_get baseline_adjustments ''KM_Reduction'' 0 = 0"
  "dict_get baseline_adjustments ''Load_Factor'' 100 = 100"
  by (simp_all add: dict_get_def baseline_adjustments_def)

lemma dict_get_restrict_baseline:
  "dict_get (baseline_adjustments |` K) ''EV_Share'' 0 = 0"
  "dict_get (baseline_adjustments |` K) ''KM_Reduction'' 0 = 0"
  "dict_get (baseline_adjustments |` K) ''Load_Factor'' 100 = 100"
  by (simp_all add: dict_get_def baseline_adjustments_def restrict_map_def)

lemma calc_restrict_baseline:
  "calculate_category_emissions category A (Some (baseline_adjustments |` K)) =
   calculate_category_emissions category A (Some baseline_adjustments)"
  by (simp add: calculate_category_emissions_def or_empty_def Let_def
      dict_get_baseline dict_get_restrict_baseline)

lemma optimized_neutral: "optimized_adjustments 0 0 100 = baseline_adjustments"
  by (simp add: optimized_adjustments_def baseline_adjustments_def)

text \<open>Monotonicity of the two adjusted formulas, and of the calculator.\<close>

lemma percentages_in_rangeD:
  assumes "percentages_in_range adj"
  shows "0 \<le> dict_get (or_empty adj) ''EV_Share'' 0"
    and "dict_get (or_empty adj) ''EV_Share'' 0 \<le> 100"
    and "0 \<le> dict_get (or_empty adj) ''KM_Reduction'' 0"
    and "dict_get (or_empty adj) ''KM_Reduction'' 0 \<le> 100"
    and "0 \<le> dict_get (or_empty adj) ''Load_Factor'' 100"
    and "dict_get (or_empty adj) ''Load_Factor'' 100 \<le> 100"
  using assms
  by (auto simp: percentages_in_range_def percentage_keys_def dict_get_def
      split: option.splits)

lemma cars_formula_mono:
  fixes x x' ev km :: real
  assumes "x \<le> x'" "0 \<le> ev" "ev \<le> 100" "0 \<le> km" "km \<le> 100"
  shows "x * 0.18 * (1 - 0.7 * ev / 100) * (1 - km / 100) / 1000
       \<le> x' * 0.18 * (1 - 0.7 * ev / 100) * (1 - km / 100) / 1000"
proof -
  have g1: "0 \<le> 1 - 0.7 * ev / 100" using assms by simp
  have g2: "0 \<le> 1 - km / 100" using assms by simp
  have "x * 0.18 \<le> x' * 0.18" using assms by simp
  then have "x * 0.18 * (1 - 0.7 * ev / 100) \<le> x' * 0.18 * (1 - 0.7 * ev / 100)"
    using g1 by (rule mult_right_mono)
  then have "x * 0.18 * (1 - 0.7 * ev / 100) * (1 - km / 100)
      \<le> x' * 0.18 * (1 - 0.7 * ev / 100) * (1 - km / 100)"
    using g2 by (rule mult_right_mono)
  then show ?thesis by (rule divide_right_mono) simp
qed

lemma planes_formula_mono:
  fixes x x' lf :: real
  assumes "x \<le> x'" "0 \<le> lf"
  shows "x * 9000.0 * (lf / 100) / 1000 \<le> x' * 9000.0 * (lf / 100) / 1000"
proof -
  have "x * 9000.0 \<le> x' * 9000.0" using assms by simp
  then have "x * 9000.0 * (lf / 100) \<le> x' * 9000.0 * (lf / 100)"
    by (rule mult_right_mono) (use assms in simp)
  then show ?thesis by (rule divide_right_mono) simp
qed

lemma sum_list_mono_pointwise:
  "list_all2 (\<le>) xs ys \<Longrightarrow> sum_list xs \<le> sum_list (ys :: real list)"
  by (induction rule: list_all2_induct) (simp_all add: add_mono)

lemma category_cases:
  obtains "category = ''Cars''" | "category = ''Trucks''" | "category = ''Buses''"
    | "category = ''Forklifts''" | "category = ''Cargo Planes''"
    | "category = ''Office Lighting''" | "category = ''Heating''"
    | "category = ''Cooling (A/C)''" | "category = ''Computing (IT)''"
    | "category = ''Subcontractors''" | "category \<notin> set categories"
proof (cases "category \<in> set categories")
  case False
  then show ?thesis by (rule that(11))
next
  case True
  then have "category = ''Cars'' \<or> category = ''Trucks'' \<or> category = ''Buses''
      \<or> category = ''Forklifts'' \<or> category = ''Cargo Planes''
      \<or> category = ''Office Lighting'' \<or> category = ''Heating''
      \<or> category = ''Cooling (A/C)'' \<or> category = ''Computing (IT)''
      \<or> category = ''Subcontractors''"
    by (simp only: categories_def list.set insert_iff empty_iff simp_thms)
  then show ?thesis
    by (elim disjE) (erule that)+
qed

lemma both_return_le:
  "r = Inr e \<Longrightarrow> r' = Inr e' \<Longrightarrow> e \<le> e' \<Longrightarrow>
   \<exists>e e'. r = Inr e \<and> r' = Inr e' \<and> (e :: real) \<le> e'"
  by blast

text \<open>Emissions are monotone in the activity dictionary, field by field.\<close>

lemma calc_mono:
  assumes rec: "is_activity_record A" and rec': "is_activity_record A'"
    and rng: "percentages_in_range adj"
    and num: "\<And>k x x'. A k = Some (Num x) \<Longrightarrow> A' k = Some (Num x') \<Longrightarrow> x \<le> x'"
    and lst: "\<And>xs ys. A ''Subcontractors_tCO2e'' = Some (Lst xs) \<Longrightarrow>
                A' ''Subcontractors_tCO2e'' = Some (Lst ys) \<Longrightarrow> sum_list xs \<le> sum_list ys"
  shows "\<exists>e e'. calculate_category_emissions category A adj = Inr e
            \<and> calculate_category_emissions category A' adj = Inr e' \<and> e \<le> e'"
proof -
  from rec obtain c t b f p l h co cm xs where A:
    "A ''Cars_km'' = Some (Num c)" "A ''Trucks_km'' = Some (Num t)"
    "A ''Buses_km'' = Some (Num b)" "A ''Forklifts_hr'' = Some (Num f)"
    "A ''Planes_hr'' = Some (Num p)" "A ''Lighting_kWh'' = Some (Num l)"
    "A ''Heating_kWhth'' = Some (Num h)" "A ''Cooling_kWh'' = Some (Num co)"
    "A ''Computing_kWh'' = Some (Num cm)" "A ''Subcontractors_tCO2e'' = Some (Lst xs)"
    by (rule is_activity_recordD)
  from rec' obtain c' t' b' f' p' l' h' co' cm' xs' where A':
    "A' ''Cars_km'' = Some (Num c')" "A' ''Trucks_km'' = Some (Num t')"
    "A' ''Buses_km'' = Some (Num b')" "A' ''Forklifts_hr'' = Some (Num f')"
    "A' ''Planes_hr'' = Some (Num p')" "A' ''Lighting_kWh'' = Some (Num l')"
    "A' ''Heating_kWhth'' = Some (Num h')" "A' ''Cooling_kWh'' = Some (Num co')"
    "A' ''Computing_kWh'' = Some (Num cm')" "A' ''Subcontractors_tCO2e'' = Some (Lst xs')"
    by (rule is_activity_recordD)
  note r = percentages_in_rangeD [OF rng]
  show ?thesis
  proof (cases category rule: category_cases)
    case 1
    have "c \<le> c'" using A(1) A'(1) by (rule num)
    then have "c * 0.18 * (1 - 0.7 * dict_get (or_empty adj) ''EV_Share'' 0 / 100)
          * (1 - dict_get (or_empty adj) ''KM_Reduction'' 0 / 100) / 1000
        \<le> c' * 0.18 * (1 - 0.7 * dict_get (or_empty adj) ''EV_Share'' 0 / 100)
          * (1 - dict_get (or_empty adj) ''KM_Reduction'' 0 / 100) / 1000"
      using r(1-4) by (rule cars_formula_mono)
    then show ?thesis
      unfolding 1 using calc_Cars [of A c adj, OF A(1)] calc_Cars [of A' c' adj, OF A'(1)]
      by blast
  next
    case 2
    have "t \<le> t'" using A(2) A'(2) by (rule num)
    then show ?thesis
      unfolding 2
      by (intro both_return_le [OF calc_Trucks [of A t adj, OF A(2)] calc_Trucks [of A' t' adj, OF A'(2)]])
        simp
  next
    case 3
    have "b \<le> b'" using A(3) A'(3) by (rule num)
    then show ?thesis
      unfolding 3
      by (intro both_return_le [OF calc_Buses [of A b adj, OF A(3)] calc_Buses [of A' b' adj, OF A'(3)]])
        simp
  next
    case 4
    have "f \<le> f'" using A(4) A'(4) by (rule num)
    then show ?thesis
      unfolding 4
      by (intro both_return_le [OF calc_Forklifts [of A f adj, OF A(4)] calc_Forklifts [of A' f' adj, OF A'(4)]])
        simp
  next
    case 5
    have "p \<le> p'" using A(5) A'(5) by (rule num)
    then have "p * 9000.0 * (dict_get (or_empty adj) ''Load_Factor'' 100 / 100) / 1000
        \<le> p' * 9000.0 * (dict_get (or_empty adj) ''Load_Factor'' 100 / 100) / 1000"
      using r(5) by (rule planes_formula_mono)
    then show ?thesis
      unfolding 5 using calc_Planes [of A p adj, OF A(5)] calc_Planes [of A' p' adj, OF A'(5)]
      by blast
  next
    case 6
    have "l \<le> l'" using A(6) A'(6) by (rule num)
    then show ?thesis
      unfolding 6
      by (intro both_return_le [OF calc_Lighting [of A l adj, OF A(6)] calc_Lighting [of A' l' adj, OF A'(6)]])
        simp
  next
    case 7
    have "h \<le> h'" using A(7) A'(7) by (rule num)
    then show ?thesis
      unfolding 7
      by (intro both_return_le [OF calc_Heating [of A h adj, OF A(7)] calc_Heating [of A' h' adj, OF A'(7)]])
        simp
  next
    case 8
    have "co \<le> co'" using A(8) A'(8) by (rule num)
    then show ?thesis
      unfolding 8
      by (intro both_return_le [OF calc_Cooling [of A co adj, OF A(8)] calc_Cooling [of A' co' adj, OF A'(8)]])
        simp
  next
    case 9
    have "cm \<le> cm'" using A(9) A'(9) by (rule num)
    then show ?thesis
      unfolding 9
      by (intro both_return_le [OF calc_Computing [of A cm adj, OF A(9)] calc_Computing [of A' cm' adj, OF A'(9)]])
        simp
  next
    case 10
    have "sum_list xs \<le> sum_list xs'" using A(10) A'(10) by (rule lst)
    then show ?thesis
      unfolding 10
      by (intro both_return_le [OF calc_Subcontractors [of A xs adj, OF A(10)] calc_Subcontractors [of A' xs' adj, OF A'(10)]])
        simp
  next
    case 11
    then show ?thesis
      by (simp add: calc_unknown)
  qed
qed

lemma is_activity_record_update_num:
  assumes "is_activity_record A" "A field = Some (Num v)"
  shows "is_activity_record (A(field \<mapsto> Num v'))"
proof -
  have "field \<noteq> ''Subcontractors_tCO2e''"
    using assms by (auto simp: is_activity_record_def)
  then show ?thesis
    using assms(1) by (simp add: is_activity_record_def numeric_fields_def)
qed

lemma is_activity_record_update_lst:
  assumes "is_activity_record A"
  shows "is_activity_record (A(''Subcontractors_tCO2e'' \<mapsto> Lst ys))"
  using assms by (simp add: is_activity_record_def numeric_fields_def)

section \<open>Facts about binary64 rounding\<close>

lemma round_half_even_of_int [simp]: "round_half_even (of_int n) = n"
  by (simp add: round_half_even_def)

lemma round_half_even_bounds:
  "\<lfloor>x\<rfloor> \<le> round_half_even x" "round_half_even x \<le> \<lfloor>x\<rfloor> + 1"
  by (simp_all add: round_half_even_def Let_def)

lemma round_half_even_le:
  assumes "x \<le> of_int n"
  shows "round_half_even x \<le> n"
proof (cases "x = of_int n")
  case True
  then show ?thesis by simp
next
  case False
  with assms have "x < of_int n" by simp
  then have "\<lfloor>x\<rfloor> < n" by (simp add: floor_less_iff)
  then show ?thesis using round_half_even_bounds(2) [of x] by linarith
qed

lemma round_half_even_nonneg: "0 \<le> x \<Longrightarrow> 0 \<le> round_half_even x"
  using round_half_even_bounds(1) [of x] by (smt (verit) zero_le_floor)

lemma floor_log2_bounds:
  assumes "0 < x"
  shows "2 powi floor_log2 x \<le> x" and "x < 2 powi (floor_log2 x + 1)"
proof -
  have "2 powi floor_log2 x \<le> x \<and> x < 2 powi (floor_log2 x + 1)"
  proof (cases "1 \<le> x")
    case True
    define n where "n = \<lfloor>x\<rfloor>"
    define b where "b = bitlen n"
    have n: "0 < n" using True by (simp add: n_def)
    have bb: "2 ^ nat (b - 1) \<le> n" "n < 2 ^ nat b"
      using bitlen_bounds [OF n] by (simp_all add: b_def)
    have b1: "1 \<le> b" using n bitlen_eq_zero_iff [of n] bitlen_nonneg [of n]
      unfolding b_def by arith
    have fl: "floor_log2 x = b - 1" using True by (simp add: floor_log2_def b_def n_def)
    have "(2::real) ^ nat (b - 1) \<le> of_int n"
      using bb(1) by (metis of_int_le_iff of_int_numeral of_int_power)
    also have "\<dots> \<le> x" by (simp add: n_def)
    finally have lo: "2 powi (b - 1) \<le> x"
      using b1 by (simp add: power_int_nonneg_exp)
    have "n + 1 \<le> 2 ^ nat b" using bb(2) by simp
    then have "of_int (n + 1) \<le> (2::real) ^ nat b"
      by (metis of_int_le_iff of_int_numeral of_int_power)
    moreover have "x < of_int (n + 1)" by (simp add: n_def)
    ultimately have "x < 2 ^ nat b" by linarith
    then have hi: "x < 2 powi b" using b1 by (simp add: power_int_nonneg_exp)
    show ?thesis using lo hi by (simp add: fl)
  next
    case False
    define y where "y = 1 / x"
    define n where "n = \<lfloor>y\<rfloor>"
    define b where "b = bitlen n"
    have y1: "1 < y" using False assms by (simp add: y_def)
    have x: "x = 1 / y" by (simp add: y_def)
    have n: "0 < n" using y1 by (simp add: n_def)
    have bb: "2 ^ nat (b - 1) \<le> n" "n < 2 ^ nat b"
      using bitlen_bounds [OF n] by (simp_all add: b_def)
    have b1: "1 \<le> b" using n bitlen_eq_zero_iff [of n] bitlen_nonneg [of n]
      unfolding b_def by arith
    have "(2::real) ^ nat (b - 1) \<le> of_int n"
      using bb(1) by (metis of_int_le_iff of_int_numeral of_int_power)
    also have "\<dots> \<le> y" by (simp add: n_def)
    finally have lo: "2 ^ nat (b - 1) \<le> y" .
    have "n + 1 \<le> 2 ^ nat b" using bb(2) by simp
    then have "of_int (n + 1) \<le> (2::real) ^ nat b"
      by (metis of_int_le_iff of_int_numeral of_int_power)
    moreover have "y < of_int (n + 1)" by (simp add: n_def)
    ultimately have hi: "y < 2 ^ nat b" by linarith
    have pm: "2 powi (- b) = 1 / (2::real) ^ nat b"
      using b1 by (simp add: power_int_minus_divide power_int_nonneg_exp)
    have pm1: "2 powi (1 - b) = 1 / (2::real) ^ nat (b - 1)"
      using b1 power_int_minus_divide [of "2::real" "b - 1"]
      by (simp add: power_int_nonneg_exp)
    show ?thesis
    proof (cases "y = 2 ^ nat (b - 1)")
      case True
      then have fl: "floor_log2 x = 1 - b"
        using False by (simp add: floor_log2_def y_def n_def b_def)
      have eq: "2 powi (1 - b) = x" using True pm1 x by simp
      have "2 powi (1 - b + 1) = 2 * (2::real) powi (1 - b)"
        using power_int_add_1 [of "2::real" "1 - b"] by simp
      then show ?thesis using eq assms by (simp add: fl)
    next
      case neq: False
      then have fl: "floor_log2 x = - b"
        using False by (simp add: floor_log2_def y_def n_def b_def Let_def)
      have "1 / 2 ^ nat b < 1 / y" using hi y1 by (simp add: frac_less2)
      then have l: "2 powi (- b) \<le> x" using pm x by simp
      have "2 ^ nat (b - 1) < y" using lo neq by simp
      then have "1 / y < 1 / 2 ^ nat (b - 1)" by (simp add: frac_less2)
      then have h: "x < 2 powi (- b + 1)" using pm1 x by (simp add: add.commute)
      show ?thesis using l h by (simp add: fl)
    qed
  qed
  then show "2 powi floor_log2 x \<le> x" and "x < 2 powi (floor_log2 x + 1)" by simp_all
qed

lemma floor_log2_unique:
  assumes "0 < x" "2 powi k \<le> x" "x < 2 powi (k + 1)"
  shows "floor_log2 x = k"
proof (rule ccontr)
  assume ne: "floor_log2 x \<noteq> k"
  note b = floor_log2_bounds [OF assms(1)]
  show False
  proof (cases "floor_log2 x < k")
    case True
    then have "floor_log2 x + 1 \<le> k" by simp
    then have "(2::real) powi (floor_log2 x + 1) \<le> 2 powi k"
      by (intro power_int_increasing) simp_all
    then show False using b(2) assms(2) by linarith
  next
    case False
    with ne have "k + 1 \<le> floor_log2 x" by simp
    then have "(2::real) powi (k + 1) \<le> 2 powi floor_log2 x"
      by (intro power_int_increasing) simp_all
    then show False using b(1) assms(3) by linarith
  qed
qed

lemma binary64_minus: "binary64 (- x) = - binary64 x"
  by (simp add: binary64_def Let_def)

lemma binary64_fixed_pos:
  assumes a: "0 < a" "a < 2 ^ 53" and e: "- 1074 \<le> e"
  shows "binary64 (of_int a * 2 powi e) = of_int a * 2 powi e"
proof -
  define x :: real where "x = of_int a * 2 powi e"
  define k where "k = bitlen a - 1"
  have x0: "0 < x" using a(1) by (simp add: x_def)
  have k0: "0 \<le> k" using a(1) bitlen_eq_zero_iff [of a] bitlen_nonneg [of a]
    unfolding k_def by arith
  have bb: "2 ^ nat k \<le> a" "a < 2 ^ nat (k + 1)"
    using bitlen_bounds [OF a(1)] by (simp_all add: k_def)
  have k52: "k \<le> 52"
  proof (rule ccontr)
    assume "\<not> k \<le> 52"
    then have "53 \<le> nat k" by simp
    then have "(2::int) ^ 53 \<le> 2 ^ nat k" by (intro power_increasing) simp_all
    then show False using bb(1) a(2) by linarith
  qed
  have lo: "(2::real) powi k \<le> of_int a"
  proof -
    have "(2::real) ^ nat k \<le> of_int a"
      using bb(1) by (metis of_int_le_iff of_int_numeral of_int_power)
    then show ?thesis using k0 by (simp add: power_int_nonneg_exp)
  qed
  have hi: "of_int a < (2::real) powi (k + 1)"
  proof -
    have "of_int a < (2::real) ^ nat (k + 1)"
      using bb(2) by (metis of_int_less_iff of_int_numeral of_int_power)
    then show ?thesis using k0 by (simp add: power_int_nonneg_exp)
  qed
  have "2 powi (k + e) \<le> x"
    using lo by (simp add: x_def power_int_add)
  moreover have "x < 2 powi (k + e + 1)"
  proof -
    have "x < 2 powi (k + 1) * 2 powi e"
      using hi by (simp add: x_def)
    also have "\<dots> = 2 powi (k + e + 1)"
      by (simp add: power_int_add [symmetric] algebra_simps)
    finally show ?thesis .
  qed
  ultimately have fl: "floor_log2 x = k + e"
    using x0 by (intro floor_log2_unique) simp_all
  define e' where "e' = max (k + e - 52) (- 1074)"
  have e'e: "e' \<le> e" using k52 e by (simp add: e'_def)
  define d where "d = nat (e - e')"
  have split: "(2::real) powi e = 2 ^ d * 2 powi e'"
  proof -
    have "(2::real) powi e = 2 powi (int d + e')" using e'e by (simp add: d_def)
    also have "\<dots> = 2 powi (int d) * 2 powi e'" by (rule power_int_add) simp
    finally show ?thesis by simp
  qed
  have q: "x / 2 powi e' = of_int (a * 2 ^ d)"
    by (simp add: x_def split)
  have "binary64 x = of_int (round_half_even (x / 2 powi e')) * 2 powi e'"
    using x0 by (simp add: binary64_def Let_def fl e'_def)
  also have "\<dots> = of_int (a * 2 ^ d) * 2 powi e'"
    unfolding q round_half_even_of_int ..
  also have "\<dots> = x"
    by (simp add: x_def split)
  finally show ?thesis by (simp add: x_def)
qed

lemma binary64_fixed_nonneg:
  assumes "0 \<le> a" "a \<le> 2 ^ 53" "- 1074 \<le> e"
  shows "binary64 (of_int a * 2 powi e) = of_int a * 2 powi e"
proof -
  consider "a = 0" | "0 < a" "a < 2 ^ 53" | "a = 2 ^ 53"
    using assms(1,2) by linarith
  then show ?thesis
  proof cases
    case 1
    then show ?thesis by (simp add: binary64_def)
  next
    case 2
    then show ?thesis using assms(3) by (rule binary64_fixed_pos)
  next
    case 3
    have "of_int a * 2 powi e = of_int (2 ^ 52) * (2::real) powi (e + 1)"
      using power_int_add_1 [of "2::real" e] by (simp add: 3)
    moreover have "binary64 (of_int (2 ^ 52) * 2 powi (e + 1)) = of_int (2 ^ 52) * 2 powi (e + 1)"
      using assms(3) by (intro binary64_fixed_pos) simp_all
    ultimately show ?thesis by simp
  qed
qed

text \<open>Every number \<open>m * 2 ^ e\<close> with \<open>\<bar>m\<bar> \<le> 2 ^ 53\<close> and \<open>e \<ge> -1074\<close> is a fixed point.\<close>

lemma binary64_fixed:
  assumes "\<bar>m\<bar> \<le> 2 ^ 53" "- 1074 \<le> e"
  shows "binary64 (of_int m * 2 powi e) = of_int m * 2 powi e"
proof (cases "0 \<le> m")
  case True
  then show ?thesis using assms by (intro binary64_fixed_nonneg) simp_all
next
  case False
  then have "binary64 (of_int (- m) * 2 powi e) = of_int (- m) * 2 powi e"
    using assms by (intro binary64_fixed_nonneg) simp_all
  then show ?thesis using binary64_minus [of "of_int m * 2 powi e"] by simp
qed

lemma binary64_idem [simp]: "binary64 (binary64 x) = binary64 x"
proof (cases "x = 0")
  case True
  then show ?thesis by (simp add: binary64_def)
next
  case False
  define a where "a = \<bar>x\<bar>"
  define e where "e = max (floor_log2 a - 52) (- 1074)"
  define m where "m = round_half_even (a / 2 powi e)"
  have a0: "0 < a" using False by (simp add: a_def)
  have b64: "binary64 x = sgn x * of_int m * 2 powi e"
    using False by (simp add: binary64_def Let_def a_def e_def m_def)
  have m0: "0 \<le> m"
    unfolding m_def using a0 by (intro round_half_even_nonneg) simp
  have "a < 2 powi (floor_log2 a + 1)" using a0 by (rule floor_log2_bounds)
  also have "\<dots> \<le> 2 powi (e + 53)"
    by (intro power_int_increasing) (simp_all add: e_def)
  also have "\<dots> = 2 ^ 53 * 2 powi e"
    using power_int_add [of "2::real" 53 e] by (simp add: add.commute)
  finally have "a / 2 powi e < 2 ^ 53"
    by (simp add: pos_divide_less_eq)
  then have "a / 2 powi e \<le> of_int (2 ^ 53)" by simp
  then have m53: "m \<le> 2 ^ 53"
    unfolding m_def by (rule round_half_even_le)
  have e1074: "- 1074 \<le> e" by (simp add: e_def)
  consider "sgn x = 1" | "sgn x = - 1"
    using False by (cases x "0::real" rule: linorder_cases) simp_all
  then show ?thesis
  proof cases
    case 1
    have "binary64 (of_int m * 2 powi e) = of_int m * 2 powi e"
      using m0 m53 e1074 by (intro binary64_fixed) simp_all
    then show ?thesis by (simp add: b64 1)
  next
    case 2
    have "binary64 (of_int (- m) * 2 powi e) = of_int (- m) * 2 powi e"
      using m0 m53 e1074 by (intro binary64_fixed) simp_all
    then show ?thesis by (simp add: b64 2)
  qed
qed

lemma binary64_zero [simp]: "binary64 0 = 0"
  by (simp add: binary64_def)

lemma binary64_of_int:
  assumes "\<bar>n\<bar> \<le> 2 ^ 53"
  shows "binary64 (of_int n) = of_int n"
  using binary64_fixed [of n 0] assms by simp

lemma round_half_even_error: "\<bar>of_int (round_half_even x) - x\<bar> \<le> 1 / 2"
proof -
  have "of_int \<lfloor>x\<rfloor> \<le> x" "x < of_int \<lfloor>x\<rfloor> + 1" by linarith+
  then show ?thesis
    by (auto simp: round_half_even_def Let_def)
qed

text \<open>The rounding error is at most half a unit in the last place.\<close>

lemma binary64_error:
  assumes "x \<noteq> 0"
  shows "\<bar>binary64 x - x\<bar> \<le> 2 powi (max (floor_log2 \<bar>x\<bar> - 52) (- 1074)) / 2"
proof -
  define e where "e = max (floor_log2 \<bar>x\<bar> - 52) (- 1074)"
  define z where "z = \<bar>x\<bar> / 2 powi e"
  define m where "m = round_half_even z"
  have p: "0 < (2::real) powi e" by simp
  have b64: "binary64 x = sgn x * of_int m * 2 powi e"
    using assms by (simp add: binary64_def Let_def e_def z_def m_def)
  have x: "x = sgn x * z * 2 powi e"
    by (simp add: z_def sgn_mult_abs)
  have "binary64 x - x = sgn x * (of_int m - z) * 2 powi e"
    by (subst (2) x) (simp add: b64 algebra_simps)
  then have "\<bar>binary64 x - x\<bar> = \<bar>of_int m - z\<bar> * 2 powi e"
    using assms by (simp add: abs_mult abs_sgn_eq)
  also have "\<dots> \<le> 1 / 2 * 2 powi e"
    using round_half_even_error [of z] by (intro mult_right_mono) (simp_all add: m_def)
  finally show ?thesis by (simp add: e_def)
qed

text \<open>With no rounding the second embedding is the first.\<close>

lemma py_mul_fl_exact: "py_mul_fl (\<lambda>x. x) v f = py_mul v f"
  by (cases v) (simp_all add: fl_mul_def)

lemma py_sum_fl_exact: "py_sum_fl (\<lambda>x. x) v = py_sum v"
proof -
  have "fl_add (\<lambda>x. x) = (+)" by (simp add: fun_eq_iff fl_add_def)
  then show ?thesis by (cases v) simp_all
qed

lemma calculate_category_emissions_fl_exact:
  "calculate_category_emissions_fl (\<lambda>x. x) category A adj =
   calculate_category_emissions category A adj"
  by (simp add: calculate_category_emissions_fl_def calculate_category_emissions_def
      activity_times_factor_fl_def activity_times_factor_def py_mul_fl_exact py_sum_fl_exact
      fl_mul_def fl_sub_def fl_div_def Let_def cong: sum.case_cong)

lemma calc_fl_Cars:
  "A ''Cars_km'' = Some (Num x) \<Longrightarrow>
   calculate_category_emissions_fl rnd ''Cars'' A adj =
     Inr (fl_div rnd
            (fl_mul rnd
               (fl_mul rnd (fl_mul rnd x 0.18)
                  (fl_sub rnd 1
                     (fl_div rnd (fl_mul rnd 0.7 (dict_get (or_empty adj) ''EV_Share'' 0)) 100)))
               (fl_sub rnd 1 (fl_div rnd (dict_get (or_empty adj) ''KM_Reduction'' 0) 100)))
            1000)"
  by (simp add: calculate_category_emissions_fl_def activity_times_factor_fl_def getitem_def
      FACTORS_lookup Let_def)


text \<open>
  The literals and constant subterms of the two adjusted formulas, as binary64 numbers;
  the fractions are the exact values of the doubles.
\<close>

lemma binary64_literals:
  "binary64 0.18 = 3242591731706757 / 18014398509481984"
  "binary64 0.7 = 3152519739159347 / 4503599627370496"
  "binary64 0.3 = 5404319552844595 / 18014398509481984"
  "binary64 1 = 1" "binary64 100 = 100" "binary64 1000 = 1000" "binary64 9000.0 = 9000"
  by code_simp+

lemma binary64_constants:
  "fl_mul binary64 0.7 100 = 70"
  "fl_div binary64 70 100 = 3152519739159347 / 4503599627370496"
  "fl_sub binary64 1 (3152519739159347 / 4503599627370496)
     = 1351079888211149 / 4503599627370496"
  "fl_mul binary64 0.7 0 = 0"
  "fl_div binary64 0 100 = 0"
  "fl_div binary64 0 1000 = 0"
  "fl_div binary64 100 100 = 1"
  "fl_sub binary64 1 0 = 1"
  "fl_sub binary64 1 1 = 0"
  by code_simp+

lemma fl_mul_one: "fl_mul binary64 (fl_mul binary64 a b) 1 = fl_mul binary64 a b"
  by (simp add: fl_mul_def binary64_literals)

lemma fl_mul_zero: "fl_mul binary64 a 0 = 0"
  by (simp add: fl_mul_def)

section \<open>The claims\<close>

subsection \<open>C1: the default scenario\<close>

text \<open>
  Claim C1. For the default activity record (250000 car km, 150000 truck km, 80000 bus km,
  2000 forklift hours, 400 plane hours, 120000 kWh lighting, 50000 kWh heating,
  300000 kWh cooling, 90000 kWh computing, subcontractors 120, 45 and 20) and the neutral
  adjustments, the calculator returns 45.0, 135.0, 88.0, 8.0, 3600.0, 50.4, 10.0, 126.0,
  37.8 and 185.0 tons for the ten categories in their order, the report holds one row
  per category with these emissions, and the total is 4285.2 tons. Cooling and Computing are
  the categories the source names \<^verbatim>\<open>Cooling (A/C)\<close> and \<^verbatim>\<open>Computing (IT)\<close>.
\<close>

theorem default_scenario_emissions:
  "calculate_category_emissions ''Cars'' DEFAULT_ACTIVITY_DATA (Some baseline_adjustments) = Inr 45.0
   \<and> calculate_category_emissions ''Trucks'' DEFAULT_ACTIVITY_DATA (Some baseline_adjustments) = Inr 135.0
   \<and> calculate_category_emissions ''Buses'' DEFAULT_ACTIVITY_DATA (Some baseline_adjustments) = Inr 88.0
   \<and> calculate_category_emissions ''Forklifts'' DEFAULT_ACTIVITY_DATA (Some baseline_adjustments) = Inr 8.0
   \<and> calculate_category_emissions ''Cargo Planes'' DEFAULT_ACTIVITY_DATA (Some baseline_adjustments) = Inr 3600.0
   \<and> calculate_category_emissions ''Office Lighting'' DEFAULT_ACTIVITY_DATA (Some baseline_adjustments) = Inr 50.4
   \<and> calculate_category_emissions ''Heating'' DEFAULT_ACTIVITY_DATA (Some baseline_adjustments) = Inr 10.0
   \<and> calculate_category_emissions ''Cooling (A/C)'' DEFAULT_ACTIVITY_DATA (Some baseline_adjustments) = Inr 126.0
   \<and> calculate_category_emissions ''Computing (IT)'' DEFAULT_ACTIVITY_DATA (Some baseline_adjustments) = Inr 37.8
   \<and> calculate_category_emissions ''Subcontractors'' DEFAULT_ACTIVITY_DATA (Some baseline_adjustments) = Inr 185.0
   \<and> get_full_emission_dataframe DEFAULT_ACTIVITY_DATA (Some baseline_adjustments) =
       Inr [\<lparr>Category = ''Cars'', Activity_Data = Num 250000, Emissions = 45.0\<rparr>,
            \<lparr>Category = ''Trucks'', Activity_Data = Num 150000, Emissions = 135.0\<rparr>,
            \<lparr>Category = ''Buses'', Activity_Data = Num 80000, Emissions = 88.0\<rparr>,
            \<lparr>Category = ''Forklifts'', Activity_Data = Num 2000, Emissions = 8.0\<rparr>,
            \<lparr>Category = ''Cargo Planes'', Activity_Data = Num 400, Emissions = 3600.0\<rparr>,
            \<lparr>Category = ''Office Lighting'', Activity_Data = Num 120000, Emissions = 50.4\<rparr>,
            \<lparr>Category = ''Heating'', Activity_Data = Num 50000, Emissions = 10.0\<rparr>,
            \<lparr>Category = ''Cooling (A/C)'', Activity_Data = Num 300000, Emissions = 126.0\<rparr>,
            \<lparr>Category = ''Computing (IT)'', Activity_Data = Num 90000, Emissions = 37.8\<rparr>,
            \<lparr>Category = ''Subcontractors'', Activity_Data = Num 185, Emissions = 185.0\<rparr>]
   \<and> total_co2 DEFAULT_ACTIVITY_DATA (Some baseline_adjustments) = Inr 4285.2"
proof -
  have rows: "\<And>c. calculate_category_emissions c DEFAULT_ACTIVITY_DATA (Some baseline_adjustments)
     = (if c = ''Cars'' then Inr 45 else if c = ''Trucks'' then Inr 135
        else if c = ''Buses'' then Inr 88 else if c = ''Forklifts'' then Inr 8
        else if c = ''Cargo Planes'' then Inr 3600 else if c = ''Office Lighting'' then Inr 50.4
        else if c = ''Heating'' then Inr 10 else if c = ''Cooling (A/C)'' then Inr 126
        else if c = ''Computing (IT)'' then Inr 37.8 else if c = ''Subcontractors'' then Inr 185
        else Inr 0)"
    by (simp add: calc_defs scenario_defs)
  have total: "total_co2 DEFAULT_ACTIVITY_DATA (Some baseline_adjustments) = Inr 4285.2"
    by (simp add: total_co2_def emissions_column_sum_def default_rows)
  show ?thesis
    by (simp add: rows total default_rows)
qed

subsection \<open>C2: the Cars formula\<close>



subsection \<open>C3: the Cargo Planes formula\<close>




subsection \<open>C4: categories outside the enumeration\<close>

text \<open>
  Claim C4 says that a category outside the ten-entry enumeration makes the calculator
  signal an error. The \<^verbatim>\<open>if\<close>/\<^verbatim>\<open>elif\<close> chain of the source ends in
  \<^verbatim>\<open>return 0.0\<close>: for the category \<^verbatim>\<open>Bicycles\<close>, which is not in the enumeration, the
  result is the value 0 and no error.
\<close>

theorem unknown_category_error_counterexample:
  "''Bicycles'' \<notin> set categories
   \<and> calculate_category_emissions ''Bicycles'' DEFAULT_ACTIVITY_DATA (Some baseline_adjustments)
       = Inr 0"
  by (simp add: categories_def calculate_category_emissions_def)

text \<open>
  Claim C4, as amended. For every activity dictionary, every adjustments argument and
  every category outside the ten-entry enumeration, the calculator returns 0.0 and
  signals no error.
\<close>

theorem unknown_category_returns_zero:
  "category \<notin> set categories \<Longrightarrow> calculate_category_emissions category A adj = Inr 0.0"
  by (simp add: calc_unknown)

theorem unknown_category_returns_zero_witness:
  "''Cooling'' \<notin> set categories
   \<and> calculate_category_emissions ''Cooling'' DEFAULT_ACTIVITY_DATA None = Inr 0.0"
  using unknown_category_returns_zero [of "''Cooling''" DEFAULT_ACTIVITY_DATA None]
  by (simp add: categories_def)

subsection \<open>C5: monotonicity in the activity\<close>

text \<open>
  Claim C5. Take an activity record and adjustments whose supplied percentages lie in
  0..100. Raising one numeric field of the record, all else fixed, never lowers the
  emissions of any category, in particular not those of the category that reads the
  field; raising entries of the subcontractor list never lowers them either. Both
  calls return a value.
\<close>

theorem emissions_monotone_in_activity:
  "is_activity_record A \<Longrightarrow> percentages_in_range adj \<Longrightarrow>
   (\<forall>field v v'. A field = Some (Num v) \<and> v \<le> v' \<longrightarrow>
      (\<exists>e e'. calculate_category_emissions category A adj = Inr e
         \<and> calculate_category_emissions category (A(field \<mapsto> Num v')) adj = Inr e'
         \<and> e \<le> e'))
   \<and> (\<forall>xs ys. A ''Subcontractors_tCO2e'' = Some (Lst xs) \<and> list_all2 (\<le>) xs ys \<longrightarrow>
      (\<exists>e e'. calculate_category_emissions category A adj = Inr e
         \<and> calculate_category_emissions category
              (A(''Subcontractors_tCO2e'' \<mapsto> Lst ys)) adj = Inr e'
         \<and> e \<le> e'))"
proof -
  assume rec: "is_activity_record A" and rng: "percentages_in_range adj"
  have numeric: "\<exists>e e'. calculate_category_emissions category A adj = Inr e
         \<and> calculate_category_emissions category (A(field \<mapsto> Num v')) adj = Inr e'
         \<and> e \<le> e'"
    if h: "A field = Some (Num v) \<and> v \<le> v'" for field v v'
  proof (rule calc_mono [OF rec _ rng])
    show "is_activity_record (A(field \<mapsto> Num v'))"
      using rec h by (blast intro: is_activity_record_update_num)
  next
    fix k x x'
    assume "A k = Some (Num x)" "(A(field \<mapsto> Num v')) k = Some (Num x')"
    then show "x \<le> x'"
      using h by (cases "k = field") simp_all
  next
    fix xs ys
    assume "A ''Subcontractors_tCO2e'' = Some (Lst xs)"
      "(A(field \<mapsto> Num v')) ''Subcontractors_tCO2e'' = Some (Lst ys)"
    then show "sum_list xs \<le> sum_list ys"
      by (cases "''Subcontractors_tCO2e'' = field") simp_all
  qed
  have listed: "\<exists>e e'. calculate_category_emissions category A adj = Inr e
         \<and> calculate_category_emissions category
              (A(''Subcontractors_tCO2e'' \<mapsto> Lst ys)) adj = Inr e'
         \<and> e \<le> e'"
    if h: "A ''Subcontractors_tCO2e'' = Some (Lst xs) \<and> list_all2 (\<le>) xs ys" for xs ys
  proof (rule calc_mono [OF rec _ rng])
    show "is_activity_record (A(''Subcontractors_tCO2e'' \<mapsto> Lst ys))"
      using rec by (rule is_activity_record_update_lst)
  next
    fix k x x'
    assume "A k = Some (Num x)" "(A(''Subcontractors_tCO2e'' \<mapsto> Lst ys)) k = Some (Num x')"
    then show "x \<le> x'"
      by (cases "k = ''Subcontractors_tCO2e''") simp_all
  next
    fix xs' ys'
    assume "A ''Subcontractors_tCO2e'' = Some (Lst xs')"
      "(A(''Subcontractors_tCO2e'' \<mapsto> Lst ys)) ''Subcontractors_tCO2e'' = Some (Lst ys')"
    then show "sum_list xs' \<le> sum_list ys'"
      using h by (simp add: sum_list_mono_pointwise)
  qed
  show ?thesis
    using numeric listed by blast
qed

theorem emissions_monotone_in_activity_witness:
  "is_activity_record DEFAULT_ACTIVITY_DATA
   \<and> percentages_in_range (Some (optimized_adjustments 30 10 80))
   \<and> DEFAULT_ACTIVITY_DATA ''Cars_km'' = Some (Num 250000) \<and> (250000 :: real) \<le> 300000
   \<and> (\<exists>e e'. calculate_category_emissions ''Cars'' DEFAULT_ACTIVITY_DATA
                 (Some (optimized_adjustments 30 10 80)) = Inr e
         \<and> calculate_category_emissions ''Cars''
              (DEFAULT_ACTIVITY_DATA(''Cars_km'' \<mapsto> Num 300000))
              (Some (optimized_adjustments 30 10 80)) = Inr e'
         \<and> e \<le> e')
   \<and> DEFAULT_ACTIVITY_DATA ''Subcontractors_tCO2e'' = Some (Lst [120, 45, 20])
   \<and> list_all2 (\<le>) [120, 45, 20] [130, 45, 25 :: real]
   \<and> (\<exists>e e'. calculate_category_emissions ''Subcontractors'' DEFAULT_ACTIVITY_DATA
                 (Some (optimized_adjustments 30 10 80)) = Inr e
         \<and> calculate_category_emissions ''Subcontractors''
              (DEFAULT_ACTIVITY_DATA(''Subcontractors_tCO2e'' \<mapsto> Lst [130, 45, 25]))
              (Some (optimized_adjustments 30 10 80)) = Inr e'
         \<and> e \<le> e')"
proof -
  have rec: "is_activity_record DEFAULT_ACTIVITY_DATA"
    by (simp add: is_activity_record_def numeric_fields_def DEFAULT_ACTIVITY_DATA_def)
  have rng: "percentages_in_range (Some (optimized_adjustments 30 10 80))"
    by (simp add: percentages_in_range_def percentage_keys_def or_empty_def
        optimized_adjustments_def)
  have km: "DEFAULT_ACTIVITY_DATA ''Cars_km'' = Some (Num 250000) \<and> (250000 :: real) \<le> 300000"
    by (simp add: DEFAULT_ACTIVITY_DATA_def)
  have sub: "DEFAULT_ACTIVITY_DATA ''Subcontractors_tCO2e'' = Some (Lst [120, 45, 20])
      \<and> list_all2 (\<le>) [120, 45, 20] [130, 45, 25 :: real]"
    by (simp add: DEFAULT_ACTIVITY_DATA_def)
  note cars = emissions_monotone_in_activity
    [of DEFAULT_ACTIVITY_DATA "Some (optimized_adjustments 30 10 80)" "''Cars''",
      OF rec rng, THEN conjunct1, rule_format, of "''Cars_km''" 250000 300000, OF km]
  note subs = emissions_monotone_in_activity
    [of DEFAULT_ACTIVITY_DATA "Some (optimized_adjustments 30 10 80)" "''Subcontractors''",
      OF rec rng, THEN conjunct2, rule_format, of "[120, 45, 20]" "[130, 45, 25]", OF sub]
  show ?thesis
    using rec rng km sub cars subs by blast
qed

subsection \<open>C6: the total of a report\<close>

text \<open>
  Claim C6. For every activity record and every adjustments argument, the report is
  built without error and has ten rows, one per category in the fixed order, each
  holding the emissions the calculator returns for its category; the total of the
  scenario is the sum of the emissions of these ten rows.
\<close>

theorem report_total_is_sum_of_rows:
  "is_activity_record A \<Longrightarrow>
   \<exists>df. get_full_emission_dataframe A adj = Inr df
        \<and> length df = 10
        \<and> map Category df = categories
        \<and> (\<forall>i<10. calculate_category_emissions (categories ! i) A adj
                    = Inr (Emissions (df ! i)))
        \<and> total_co2 A adj = Inr (sum_list (map Emissions df))
        \<and> total_co2 A adj = Inr (\<Sum>i<10. Emissions (df ! i))"
proof -
  assume rec: "is_activity_record A"
  let ?df = "map (\<lambda>c. row_of c A adj) categories"
  have df: "get_full_emission_dataframe A adj = Inr ?df"
    by (simp add: get_full_emission_dataframe_def emission_rows_on_records [OF rec])
  have len: "length ?df = 10"
    by (simp add: categories_def)
  have cats: "map Category ?df = categories"
    by (simp add: row_of_def comp_def)
  have each: "calculate_category_emissions (categories ! i) A adj = Inr (Emissions (?df ! i))"
    if "i < 10" for i
  proof -
    have i: "i < length categories" using that by (simp add: categories_def)
    obtain e where e: "calculate_category_emissions (categories ! i) A adj = Inr e"
      using calc_returns_on_records [OF rec] by blast
    show ?thesis
      using i by (simp add: row_of_def e)
  qed
  have total: "total_co2 A adj = Inr (sum_list (map Emissions ?df))"
    by (simp add: total_co2_def df emissions_column_sum_def)
  have "sum_list (map Emissions ?df) = (\<Sum>i<length ?df. Emissions (?df ! i))"
    by (rule sum_list_map_nth)
  then have total': "total_co2 A adj = Inr (\<Sum>i<10. Emissions (?df ! i))"
    using total len by simp
  show ?thesis
    using df len cats each total total' by blast
qed

theorem report_total_is_sum_of_rows_witness:
  "is_activity_record DEFAULT_ACTIVITY_DATA
   \<and> (\<exists>df. get_full_emission_dataframe DEFAULT_ACTIVITY_DATA
              (Some (optimized_adjustments 30 10 80)) = Inr df
        \<and> length df = 10
        \<and> map Category df = categories
        \<and> (\<forall>i<10. calculate_category_emissions (categories ! i) DEFAULT_ACTIVITY_DATA
                      (Some (optimized_adjustments 30 10 80))
                    = Inr (Emissions (df ! i)))
        \<and> total_co2 DEFAULT_ACTIVITY_DATA (Some (optimized_adjustments 30 10 80))
            = Inr (sum_list (map Emissions df))
        \<and> total_co2 DEFAULT_ACTIVITY_DATA (Some (optimized_adjustments 30 10 80))
            = Inr (\<Sum>i<10. Emissions (df ! i)))"
proof -
  have r: "is_activity_record DEFAULT_ACTIVITY_DATA"
    by (simp add: is_activity_record_def numeric_fields_def DEFAULT_ACTIVITY_DATA_def)
  show ?thesis
    using r report_total_is_sum_of_rows
      [of DEFAULT_ACTIVITY_DATA "Some (optimized_adjustments 30 10 80)", OF r]
    by simp
qed

subsection \<open>C7: bounds of the Cars adjustments\<close>

text \<open>
  Claim C7 says that with an EV share of 100 and a distance reduction of 0 the Cars
  emissions are exactly 30 percent of the unadjusted \<open>cars_km * 0.18 / 1000\<close>. In
  binary64 they are not: on the default record (250000 car km) the unadjusted value is
  45.0 and the result is 13.500000000000002, which is not 13.5, whether the 30 percent
  are taken exactly or as the binary64 product \<open>0.3 * 45.0\<close>.
\<close>

theorem cars_full_ev_share_counterexample:
  "calculate_category_emissions_fl binary64 ''Cars'' DEFAULT_ACTIVITY_DATA
     (Some (optimized_adjustments 100 0 80)) = Inr (7599824371187713 / 562949953421312)
   \<and> fl_div binary64 (fl_mul binary64 250000 0.18) 1000 = 45
   \<and> (7599824371187713 / 562949953421312 :: real) \<noteq> 30 / 100 * 45
   \<and> (7599824371187713 / 562949953421312 :: real) \<noteq> fl_mul binary64 0.3 45"
  by code_simp

text \<open>
  Claim C7, as amended. Whenever the activity record holds the number \<open>cars_km\<close>: with
  an EV share of 100 and a distance reduction of 0 the Cars emissions are
  \<open>cars_km * 0.18\<close> times the factor \<open>1 - 0.7 * 100 / 100\<close>, divided by 1000, each
  operation rounded to binary64, where the factor evaluates to 0.30000000000000004 and
  not to the binary64 number 0.3 (so the result is 30 percent of the unadjusted value
  only up to rounding); with a distance reduction of 100 and an EV share of 0 they are
  zero.
\<close>

theorem cars_adjustment_bounds_binary64:
  "A ''Cars_km'' = Some (Num cars_km) \<Longrightarrow>
   (\<forall>adj. adj ''EV_Share'' = Some 100 \<and> adj ''KM_Reduction'' = Some 0 \<longrightarrow>
      calculate_category_emissions_fl binary64 ''Cars'' A (Some adj) =
        Inr (fl_div binary64
               (fl_mul binary64 (fl_mul binary64 cars_km 0.18)
                  (1351079888211149 / 4503599627370496))
               1000))
   \<and> fl_sub binary64 1 (fl_div binary64 (fl_mul binary64 0.7 100) 100)
       = 1351079888211149 / 4503599627370496
   \<and> (1351079888211149 / 4503599627370496 :: real) \<noteq> binary64 0.3
   \<and> (\<forall>adj. adj ''KM_Reduction'' = Some 100 \<and> adj ''EV_Share'' = Some 0 \<longrightarrow>
        calculate_category_emissions_fl binary64 ''Cars'' A (Some adj) = Inr 0)"
proof -
  assume km: "A ''Cars_km'' = Some (Num cars_km)"
  have full_ev: "calculate_category_emissions_fl binary64 ''Cars'' A (Some adj) =
        Inr (fl_div binary64
               (fl_mul binary64 (fl_mul binary64 cars_km 0.18)
                  (1351079888211149 / 4503599627370496))
               1000)"
    if "adj ''EV_Share'' = Some 100 \<and> adj ''KM_Reduction'' = Some 0" for adj
    using that
    by (simp add: calc_fl_Cars [of A cars_km, OF km] or_empty_def dict_get_def
        binary64_constants fl_mul_one)
  have factor: "fl_sub binary64 1 (fl_div binary64 (fl_mul binary64 0.7 100) 100)
       = 1351079888211149 / 4503599627370496"
    by (simp add: binary64_constants)
  have differs: "(1351079888211149 / 4503599627370496 :: real) \<noteq> binary64 0.3"
    by (simp add: binary64_literals)
  have no_km: "calculate_category_emissions_fl binary64 ''Cars'' A (Some adj) = Inr 0"
    if "adj ''KM_Reduction'' = Some 100 \<and> adj ''EV_Share'' = Some 0" for adj
    using that
    by (simp add: calc_fl_Cars [of A cars_km, OF km] or_empty_def dict_get_def
        binary64_constants fl_mul_zero)
  show ?thesis
    using full_ev factor differs no_km by blast
qed

theorem cars_adjustment_bounds_binary64_witness:
  "DEFAULT_ACTIVITY_DATA ''Cars_km'' = Some (Num 250000)
   \<and> optimized_adjustments 100 0 80 ''EV_Share'' = Some 100
   \<and> optimized_adjustments 100 0 80 ''KM_Reduction'' = Some 0
   \<and> calculate_category_emissions_fl binary64 ''Cars'' DEFAULT_ACTIVITY_DATA
        (Some (optimized_adjustments 100 0 80)) =
          Inr (fl_div binary64
                 (fl_mul binary64 (fl_mul binary64 250000 0.18)
                    (1351079888211149 / 4503599627370496))
                 1000)
   \<and> fl_div binary64
         (fl_mul binary64 (fl_mul binary64 250000 0.18)
            (1351079888211149 / 4503599627370496))
         1000 = 7599824371187713 / 562949953421312
   \<and> optimized_adjustments 0 100 80 ''KM_Reduction'' = Some 100
   \<and> optimized_adjustments 0 100 80 ''EV_Share'' = Some 0
   \<and> calculate_category_emissions_fl binary64 ''Cars'' DEFAULT_ACTIVITY_DATA
        (Some (optimized_adjustments 0 100 80)) = Inr 0"
proof -
  have km: "DEFAULT_ACTIVITY_DATA ''Cars_km'' = Some (Num 250000)"
    by (simp add: DEFAULT_ACTIVITY_DATA_def)
  have ev: "optimized_adjustments 100 0 80 ''EV_Share'' = Some 100
      \<and> optimized_adjustments 100 0 80 ''KM_Reduction'' = Some 0"
    by (simp add: optimized_adjustments_def)
  have red: "optimized_adjustments 0 100 80 ''KM_Reduction'' = Some 100
      \<and> optimized_adjustments 0 100 80 ''EV_Share'' = Some 0"
    by (simp add: optimized_adjustments_def)
  have val: "fl_div binary64
         (fl_mul binary64 (fl_mul binary64 250000 0.18)
            (1351079888211149 / 4503599627370496))
         1000 = 7599824371187713 / 562949953421312"
    by code_simp
  note cb = cars_adjustment_bounds_binary64 [of DEFAULT_ACTIVITY_DATA 250000, OF km]
  note full_ev = cb [THEN conjunct1, rule_format, of "optimized_adjustments 100 0 80", OF ev]
  note no_km = cb [THEN conjunct2, THEN conjunct2, THEN conjunct2, rule_format,
      of "optimized_adjustments 0 100 80", OF red]
  show ?thesis
    using km ev red val full_ev no_km by blast
qed

subsection \<open>C8: omitted adjustments\<close>

text \<open>
  Claim C8. For every category and every activity dictionary, the calculator gives the
  same result with the adjustments omitted, and with the neutral adjustments restricted
  to any set of fields, as with the explicit neutral adjustments (EV share 0, distance
  reduction 0, load factor 100); more generally, filling the missing fields of any
  adjustments dictionary with the neutral values changes nothing. On an activity record
  these calls return a value, not an error. Hence the total of the optimized scenario
  with sliders at 0, 0 and 100, the total with adjustments omitted and the total with
  neutral fields missing all equal the baseline total.
\<close>

theorem omitted_adjustments_are_neutral:
  "calculate_category_emissions category A None
     = calculate_category_emissions category A (Some baseline_adjustments)
   \<and> calculate_category_emissions category A (Some (baseline_adjustments |` K))
       = calculate_category_emissions category A (Some baseline_adjustments)
   \<and> calculate_category_emissions category A (Some adj)
       = calculate_category_emissions category A (Some (baseline_adjustments ++ adj))
   \<and> (is_activity_record A \<longrightarrow>
        (\<exists>e. calculate_category_emissions category A None = Inr e)
        \<and> (\<exists>e. calculate_category_emissions category A (Some adj) = Inr e)
        \<and> (\<exists>t. total_co2 A None = Inr t))
   \<and> total_co2 A (Some (optimized_adjustments 0 0 100))
       = total_co2 A (Some baseline_adjustments)
   \<and> total_co2 A None = total_co2 A (Some baseline_adjustments)
   \<and> total_co2 A (Some (baseline_adjustments |` K))
       = total_co2 A (Some baseline_adjustments)"
proof -
  have returns: "(\<exists>e. calculate_category_emissions category A None = Inr e)
      \<and> (\<exists>e. calculate_category_emissions category A (Some adj) = Inr e)
      \<and> (\<exists>t. total_co2 A None = Inr t)"
    if rec: "is_activity_record A"
    using calc_returns_on_records [OF rec]
    by (simp add: total_co2_def get_full_emission_dataframe_def
        emission_rows_on_records [OF rec])
  have t1: "total_co2 A (Some (optimized_adjustments 0 0 100))
      = total_co2 A (Some baseline_adjustments)"
    by (simp add: optimized_neutral)
  have t2: "total_co2 A None = total_co2 A (Some baseline_adjustments)"
    by (rule total_co2_cong) (rule calc_None_baseline)
  have t3: "total_co2 A (Some (baseline_adjustments |` K))
      = total_co2 A (Some baseline_adjustments)"
    by (rule total_co2_cong) (rule calc_restrict_baseline)
  show ?thesis
    using returns t1 t2 t3 calc_None_baseline [of category A]
      calc_restrict_baseline [of category A K] calc_fill_defaults [of category A adj]
    by blast
qed

theorem omitted_adjustments_are_neutral_witness:
  "is_activity_record DEFAULT_ACTIVITY_DATA
   \<and> calculate_category_emissions ''Cargo Planes'' DEFAULT_ACTIVITY_DATA None = Inr 3600
   \<and> calculate_category_emissions ''Cargo Planes'' DEFAULT_ACTIVITY_DATA
        (Some [''EV_Share'' \<mapsto> 0]) = Inr 3600
   \<and> total_co2 DEFAULT_ACTIVITY_DATA None = Inr 4285.2"
proof -
  have r: "is_activity_record DEFAULT_ACTIVITY_DATA"
    by (simp add: is_activity_record_def numeric_fields_def DEFAULT_ACTIVITY_DATA_def)
  have k: "baseline_adjustments |` {''EV_Share''} = [''EV_Share'' \<mapsto> 0]"
    by (rule ext) (simp add: baseline_adjustments_def restrict_map_def)
  have b: "calculate_category_emissions ''Cargo Planes'' DEFAULT_ACTIVITY_DATA
      (Some baseline_adjustments) = Inr 3600"
    by (simp add: calc_defs scenario_defs)
  have t: "total_co2 DEFAULT_ACTIVITY_DATA (Some baseline_adjustments) = Inr 4285.2"
    by (simp add: total_co2_def emissions_column_sum_def default_rows)
  show ?thesis
    using r b t k omitted_adjustments_are_neutral
      [of "''Cargo Planes''" DEFAULT_ACTIVITY_DATA "{''EV_Share''}" "[''EV_Share'' \<mapsto> 0]"]
    by simp
qed

subsection \<open>C9: zero activity\<close>

text \<open>
  Claim C9. Under every adjustments argument, each of the ten categories yields zero
  emissions when its activity input is zero: each of the nine categories with an
  emission factor when its field is the number 0, and Subcontractors when its list sums
  to zero; in particular the empty list yields zero and no error.
\<close>

theorem zero_activity_zero_emissions:
  "(A ''Cars_km'' = Some (Num 0) \<longrightarrow> calculate_category_emissions ''Cars'' A adj = Inr 0)
   \<and> (A ''Trucks_km'' = Some (Num 0) \<longrightarrow> calculate_category_emissions ''Trucks'' A adj = Inr 0)
   \<and> (A ''Buses_km'' = Some (Num 0) \<longrightarrow> calculate_category_emissions ''Buses'' A adj = Inr 0)
   \<and> (A ''Forklifts_hr'' = Some (Num 0) \<longrightarrow>
        calculate_category_emissions ''Forklifts'' A adj = Inr 0)
   \<and> (A ''Planes_hr'' = Some (Num 0) \<longrightarrow>
        calculate_category_emissions ''Cargo Planes'' A adj = Inr 0)
   \<and> (A ''Lighting_kWh'' = Some (Num 0) \<longrightarrow>
        calculate_category_emissions ''Office Lighting'' A adj = Inr 0)
   \<and> (A ''Heating_kWhth'' = Some (Num 0) \<longrightarrow>
        calculate_category_emissions ''Heating'' A adj = Inr 0)
   \<and> (A ''Cooling_kWh'' = Some (Num 0) \<longrightarrow>
        calculate_category_emissions ''Cooling (A/C)'' A adj = Inr 0)
   \<and> (A ''Computing_kWh'' = Some (Num 0) \<longrightarrow>
        calculate_category_emissions ''Computing (IT)'' A adj = Inr 0)
   \<and> (\<forall>xs. A ''Subcontractors_tCO2e'' = Some (Lst xs) \<and> sum_list xs = 0 \<longrightarrow>
        calculate_category_emissions ''Subcontractors'' A adj = Inr 0)
   \<and> (A ''Subcontractors_tCO2e'' = Some (Lst []) \<longrightarrow>
        calculate_category_emissions ''Subcontractors'' A adj = Inr 0)"
  by (simp add: calc_Cars calc_Trucks calc_Buses calc_Forklifts calc_Planes calc_Lighting
      calc_Heating calc_Cooling calc_Computing calc_Subcontractors)

theorem zero_activity_zero_emissions_witness:
  "calculate_category_emissions ''Cars'' RESET_ACTIVITY_DATA (Some (optimized_adjustments 30 10 80)) = Inr 0
   \<and> calculate_category_emissions ''Trucks'' RESET_ACTIVITY_DATA (Some (optimized_adjustments 30 10 80)) = Inr 0
   \<and> calculate_category_emissions ''Buses'' RESET_ACTIVITY_DATA (Some (optimized_adjustments 30 10 80)) = Inr 0
   \<and> calculate_category_emissions ''Forklifts'' RESET_ACTIVITY_DATA (Some (optimized_adjustments 30 10 80)) = Inr 0
   \<and> calculate_category_emissions ''Cargo Planes'' RESET_ACTIVITY_DATA (Some (optimized_adjustments 30 10 80)) = Inr 0
   \<and> calculate_category_emissions ''Office Lighting'' RESET_ACTIVITY_DATA (Some (optimized_adjustments 30 10 80)) = Inr 0
   \<and> calculate_category_emissions ''Heating'' RESET_ACTIVITY_DATA (Some (optimized_adjustments 30 10 80)) = Inr 0
   \<and> calculate_category_emissions ''Cooling (A/C)'' RESET_ACTIVITY_DATA (Some (optimized_adjustments 30 10 80)) = Inr 0
   \<and> calculate_category_emissions ''Computing (IT)'' RESET_ACTIVITY_DATA (Some (optimized_adjustments 30 10 80)) = Inr 0
   \<and> calculate_category_emissions ''Subcontractors'' RESET_ACTIVITY_DATA (Some (optimized_adjustments 30 10 80)) = Inr 0
   \<and> calculate_category_emissions ''Subcontractors''
        (RESET_ACTIVITY_DATA(''Subcontractors_tCO2e'' \<mapsto> Lst [])) None = Inr 0"
  using zero_activity_zero_emissions
      [of RESET_ACTIVITY_DATA "Some (optimized_adjustments 30 10 80)"]
    zero_activity_zero_emissions
      [of "RESET_ACTIVITY_DATA(''Subcontractors_tCO2e'' \<mapsto> Lst [])" None]
  by (simp add: RESET_ACTIVITY_DATA_def)

subsection \<open>C10: categories independent of the adjustments\<close>

text \<open>
  Claim C10. For every activity dictionary and every two adjustments arguments, the
  result of the calculator (a value or an error) is the same for each of the eight
  categories Trucks, Buses, Forklifts, Office Lighting, Heating, Cooling, Computing and
  Subcontractors.
\<close>

theorem adjustments_only_affect_cars_and_planes:
  "category \<in> set [''Trucks'', ''Buses'', ''Forklifts'', ''Office Lighting'', ''Heating'',
                     ''Cooling (A/C)'', ''Computing (IT)'', ''Subcontractors''] \<Longrightarrow>
   calculate_category_emissions category A adj1 = calculate_category_emissions category A adj2"
  by (rule calc_ignores_adjustments) auto

theorem adjustments_only_affect_cars_and_planes_witness:
  "''Trucks'' \<in> set [''Trucks'', ''Buses'', ''Forklifts'', ''Office Lighting'', ''Heating'',
                     ''Cooling (A/C)'', ''Computing (IT)'', ''Subcontractors'']
   \<and> calculate_category_emissions ''Trucks'' DEFAULT_ACTIVITY_DATA None
       = calculate_category_emissions ''Trucks'' DEFAULT_ACTIVITY_DATA
           (Some (optimized_adjustments 30 10 80))"
  using adjustments_only_affect_cars_and_planes
    [of "''Trucks''" DEFAULT_ACTIVITY_DATA None "Some (optimized_adjustments 30 10 80)"]
  by simp

end
